theory Spec2Isabelle
  imports Complex_Main "HOL-Library.Word"
begin

section \<open>JavaScript strings and values\<close>

text \<open>
  A JavaScript string is a sequence of UTF-16 code units. The model uses \<open>string\<close>, whose
  characters are the code units below 256 (ASCII and the Latin-1 supplement), and gives
  the string methods of the platform that \<open>server.mjs\<close> calls their meaning on that range.
\<close>

definition is_upper_ascii :: "char \<Rightarrow> bool" where
  "is_upper_ascii c = (65 \<le> (of_char c :: nat) \<and> (of_char c :: nat) \<le> 90)"

definition is_lower_ascii :: "char \<Rightarrow> bool" where
  "is_lower_ascii c = (97 \<le> (of_char c :: nat) \<and> (of_char c :: nat) \<le> 122)"

definition is_digit :: "char \<Rightarrow> bool" where
  "is_digit c = (48 \<le> (of_char c :: nat) \<and> (of_char c :: nat) \<le> 57)"

text \<open>
  \<open>String.prototype.toLowerCase\<close>: \<open>A\<close>..\<open>Z\<close> and the Latin-1 capitals
  U+00C0..U+00DE (the multiplication sign U+00D7 is not a letter) move up by 32.
\<close>

definition lower_char :: "char \<Rightarrow> char" where
  "lower_char c =
     (let n = (of_char c :: nat)
      in if (65 \<le> n \<and> n \<le> 90) \<or> (192 \<le> n \<and> n \<le> 222 \<and> n \<noteq> 215)
         then char_of (n + 32) else c)"

definition toLowerCase :: "string \<Rightarrow> string" where
  "toLowerCase s = map lower_char s"

text \<open>
  White space and line terminators of ECMAScript below 256: TAB, LF, VT, FF, CR, SP and
  the no-break space U+00A0.
\<close>

definition is_js_space :: "char \<Rightarrow> bool" where
  "is_js_space c = ((of_char c :: nat) \<in> {9, 10, 11, 12, 13, 32, 160})"

definition trim :: "string \<Rightarrow> string" where
  "trim s = rev (dropWhile is_js_space (rev (dropWhile is_js_space s)))"

text \<open>\<open>s.split(sep)\<close> for a one-character separator: never empty, \<open>''''.split(sep) = ['''']\<close>.\<close>

fun js_split :: "char \<Rightarrow> string \<Rightarrow> string list" where
  "js_split sep [] = [[]]"
| "js_split sep (c # cs) =
     (if c = sep then [] # js_split sep cs
      else (case js_split sep cs of [] \<Rightarrow> [[c]] | p # ps \<Rightarrow> (c # p) # ps))"

text \<open>\<open>s.includes(sub)\<close>, which is also what \<open>/\.spotify\./.test(s)\<close> decides for a literal.\<close>

fun js_includes :: "string \<Rightarrow> string \<Rightarrow> bool" where
  "js_includes [] sub = (sub = [])"
| "js_includes (c # cs) sub = (take (length sub) (c # cs) = sub \<or> js_includes cs sub)"

text \<open>\<open>arr.join(sep)\<close> on strings.\<close>

fun join :: "string \<Rightarrow> string list \<Rightarrow> string" where
  "join sep [] = []"
| "join sep [x] = x"
| "join sep (x # y # ys) = x @ sep @ join sep (y # ys)"

text \<open>A non-negative integer in a template literal: its decimal digits.\<close>

fun dec :: "nat \<Rightarrow> string" where
  "dec n = (if n < 10 then [char_of (48 + n)] else dec (n div 10) @ [char_of (48 + n mod 10)])"

declare dec.simps [simp del]

text \<open>
  The values of \<open>quality\<close>, \<open>progressive\<close> and \<open>expires_in\<close>: absent (\<open>undefined\<close>),
  \<open>null\<close>, booleans and integral numbers. \<open>Number(v)\<close> is \<open>None\<close> for NaN.
\<close>

datatype jsval = Undefined | Null | Bool bool | Num int

fun toNumber :: "jsval \<Rightarrow> int option" where
  "toNumber Undefined = None"
| "toNumber Null = Some 0"
| "toNumber (Bool b) = Some (if b then 1 else 0)"
| "toNumber (Num n) = Some n"

fun toBoolean :: "jsval \<Rightarrow> bool" where
  "toBoolean Undefined = False"
| "toBoolean Null = False"
| "toBoolean (Bool b) = b"
| "toBoolean (Num n) = (n \<noteq> 0)"

text \<open>A string is truthy when it is present and not empty.\<close>

fun truthy_str :: "string option \<Rightarrow> bool" where
  "truthy_str None = False"
| "truthy_str (Some s) = (s \<noteq> [])"

section \<open>Link Resolver: \<open>parseSpotifyLink\<close>\<close>

record parsed_link =
  ltype :: string
  lid :: string

text \<open>
  What \<open>new URL(s)\<close> exposes to the resolver. The URL parser belongs to the platform, so
  the resolver takes it as a parameter: \<open>None\<close> when the constructor throws.
\<close>

record URL =
  hostname :: string
  pathname :: string

type_synonym url_parser = "string \<Rightarrow> URL option"

definition is_type_char :: "char \<Rightarrow> bool" where
  "is_type_char c = (is_lower_ascii c \<or> is_upper_ascii c \<or> c = CHR ''_'')"

definition is_alnum :: "char \<Rightarrow> bool" where
  "is_alnum c = (is_lower_ascii c \<or> is_upper_ascii c \<or> is_digit c)"

definition ascii_lower :: "char \<Rightarrow> char" where
  "ascii_lower c = (if is_upper_ascii c then char_of ((of_char c :: nat) + 32) else c)"

text \<open>
  \<open>s.match(/^spotify:([a-z_]+):([A-Za-z0-9]+)$/i)\<close>: the two groups, or \<open>None\<close> for no
  match. Under the \<open>i\<close> flag (without \<open>u\<close>) a pattern letter matches its two ASCII cases
  only. The colon is in neither class, so the first group is the whole run of class
  characters after the prefix and the second is everything after the next colon.
\<close>

definition uriMatch :: "string \<Rightarrow> (string \<times> string) option" where
  "uriMatch s =
     (if map ascii_lower (take 8 s) \<noteq> ''spotify:'' then None
      else let rest = drop 8 s;
               g1 = takeWhile is_type_char rest;
               after = dropWhile is_type_char rest
           in if g1 = [] then None
              else (case after of
                      [] \<Rightarrow> None
                    | c # g2 \<Rightarrow>
                        if c = CHR '':'' \<and> g2 \<noteq> [] \<and> list_all is_alnum g2
                        then Some (g1, g2) else None))"

definition parseSpotifyLink :: "url_parser \<Rightarrow> string \<Rightarrow> parsed_link option" where
  "parseSpotifyLink new_URL input =
     (if input = [] then None
      else let trimmed = trim input
           in case uriMatch trimmed of
                Some (g1, g2) \<Rightarrow> Some \<lparr>ltype = toLowerCase g1, lid = g2\<rparr>
              | None \<Rightarrow>
                  (case new_URL trimmed of
                     None \<Rightarrow> None
                   | Some u \<Rightarrow>
                       if \<not> js_includes (hostname u) ''.spotify.'' then None
                       else let parts = filter (\<lambda>p. p \<noteq> []) (js_split CHR ''/'' (pathname u))
                            in if length parts \<ge> 2
                               then Some \<lparr>ltype = toLowerCase (parts ! 0),
                                          lid = hd (js_split CHR ''?'' (parts ! 1))\<rparr>
                               else None))"

text \<open>
  The components \<open>new URL\<close> yields on the inputs used in the examples of this theory; on
  every other string this sample parser reports a parse failure.
\<close>

definition sample_URL :: url_parser where
  "sample_URL s =
     (if s = ''https://open.spotify.com/track/3AJwUDP919kvQ9QcozQPxg''
      then Some \<lparr>hostname = ''open.spotify.com'', pathname = ''/track/3AJwUDP919kvQ9QcozQPxg''\<rparr>
      else if s = ''https://open.spotify.com/Album/1ATL5GLyefJaxhQzSPVrLX/''
      then Some \<lparr>hostname = ''open.spotify.com'', pathname = ''/Album/1ATL5GLyefJaxhQzSPVrLX/''\<rparr>
      else if s = ''foo://open.spotify.com/track/abc''
      then Some \<lparr>hostname = ''open.spotify.com'', pathname = ''/track/abc''\<rparr>
      else if s = ''https://spotify.com/track/abc''
      then Some \<lparr>hostname = ''spotify.com'', pathname = ''/track/abc''\<rparr>
      else None)"

section \<open>Errors, responses and the outside world\<close>

text \<open>
  Every failure in \<open>server.mjs\<close> is a thrown \<open>Error\<close> that a handler reads through
  \<open>e.message\<close>. A function that may throw returns \<open>error + 'a\<close>.
\<close>

datatype error = Error (message: string)

text \<open>
  What the code reads off a \<open>fetch\<close> response: \<open>r.ok\<close>, \<open>r.status\<close>, \<open>r.text()\<close>,
  \<open>r.json()\<close> (which rejects when the body is not JSON), the \<open>content-type\<close> header and
  \<open>r.arrayBuffer()\<close>. \<open>fetch\<close> itself rejects when no response arrives.
\<close>

record 'a response =
  ok :: bool
  status :: nat
  body :: string
  json :: "error + 'a"
  content_type :: "string option"
  bytes :: "8 word list"

type_synonym 'a fetched = "error + 'a response"

record env =
  SPOTIFY_CLIENT_ID :: "string option"
  SPOTIFY_CLIENT_SECRET :: "string option"
  CUTOUT_API_KEY :: "string option"
  CUTOUT_ENHANCE_ENDPOINT :: "string option"

record token_data =
  access_token :: "string option"
  expires_in :: jsval

text \<open>
  A number of the language: NaN, an infinity (\<open>True\<close> for the negative one) or a finite
  value.
\<close>

datatype jsnum = NaN | Infinity bool | Finite rat

text \<open>
  A value as \<open>r.json()\<close> can deliver it, and \<open>undefined\<close> for a property that is not
  there. The dimensions of an image are such values: the code does not check their type
  before it coerces them.
\<close>

datatype json =
    JUndefined
  | JNull
  | JBool bool
  | JNumber jsnum
  | JString string
  | JArray "json list"
  | JObject "(string \<times> json) list"

record image =
  url :: string
  width :: json
  height :: json

text \<open>
  The value of an \<open>images\<close> property: falsy (absent, \<open>null\<close>, \<open>false\<close>, \<open>0\<close>, the
  empty string), an array, or another truthy value, which has no \<open>filter\<close> method. An
  entry of the array is an object, or \<open>None\<close> for \<open>null\<close> and for a value without
  properties of its own.
\<close>

datatype images_value = NoImages | ImageArray "image option list" | NotAnArray

text \<open>The fields of an upstream resource that \<open>getImagesFor\<close> reads.\<close>

record artist =
  artist_name :: "string option"

record album =
  album_images :: images_value

record owner =
  display_name :: "string option"

record parent_show =
  show_name :: "string option"

record resource =
  name :: "string option"
  artists :: "artist list option"
  album :: "album option"
  res_images :: images_value
  owner :: "owner option"
  parent_show :: "parent_show option"

record upload =
  file_name :: string
  file_type :: string
  file_bytes :: "8 word list"

text \<open>
  The outside world, one function per outbound call: the token endpoint (given the
  credentials \<open>id:secret\<close> of the Basic header), the catalogue API (given the URL and the
  Authorization header), the source image, the transform service (given the endpoint, the
  API key and the uploaded file) and the \<open>sharp\<close> pipeline resize-to-3000x3000, JPEG with
  4:4:4 chroma (given the bytes, the quality and the progressive flag). With them the two
  conversions of the language that \<open>Number\<close> rests on: StringToNumber, and ToPrimitive
  of an array or object, which yields a string or throws a TypeError.
\<close>

record net =
  post_token :: "string \<Rightarrow> token_data fetched"
  get_json :: "string \<Rightarrow> string \<Rightarrow> resource fetched"
  get_image :: "string \<Rightarrow> unit fetched"
  post_file :: "string \<Rightarrow> string \<Rightarrow> upload \<Rightarrow> unit fetched"
  sharp_jpeg :: "8 word list \<Rightarrow> int \<Rightarrow> bool \<Rightarrow> error + 8 word list"
  string_to_number :: "string \<Rightarrow> jsnum"
  to_primitive :: "json \<Rightarrow> error + string"

text \<open>A possibly absent string in a template literal or a \<open>join\<close>.\<close>

fun template :: "string option \<Rightarrow> string" where
  "template None = ''undefined''"
| "template (Some s) = s"

fun str_or :: "string option \<Rightarrow> string \<Rightarrow> string" where
  "str_or None d = d"
| "str_or (Some s) d = (if s = [] then d else s)"

text \<open>\<open>v || d\<close> in a numeric position; a truthy value of \<open>jsval\<close> is a number or \<open>true\<close>.\<close>

definition js_or_num :: "jsval \<Rightarrow> int \<Rightarrow> int" where
  "js_or_num v d = (if toBoolean v then (case toNumber v of Some n \<Rightarrow> n | None \<Rightarrow> d) else d)"

text \<open>\<open>Number(v) || d\<close>: NaN and 0 are falsy.\<close>

fun number_or :: "int option \<Rightarrow> int \<Rightarrow> int" where
  "number_or None d = d"
| "number_or (Some n) d = (if n = 0 then d else n)"

section \<open>Credential Cache: \<open>getAccessToken\<close>\<close>

record tokenCache =
  accessToken :: "string option"
  expiresAt :: int

definition initial_tokenCache :: tokenCache where
  "initial_tokenCache = \<lparr>accessToken = None, expiresAt = 0\<rparr>"

definition token_url :: string where
  "token_url = ''https://accounts.spotify.com/api/token''"

text \<open>
  \<open>getAccessToken\<close> reads the clock up to twice: \<open>now1\<close> at the cache check and \<open>now2\<close>
  when the new expiry is stored. It returns the token or the error, the cache as it
  leaves it, and the URLs it called.
\<close>

definition getAccessToken ::
  "env \<Rightarrow> net \<Rightarrow> int \<Rightarrow> int \<Rightarrow> tokenCache \<Rightarrow> (error + string option) \<times> tokenCache \<times> string list" where
  "getAccessToken e n now1 now2 cache =
     (if truthy_str (accessToken cache) \<and> expiresAt cache - 30 > now1
      then (Inr (accessToken cache), cache, [])
      else if \<not> truthy_str (SPOTIFY_CLIENT_ID e) \<or> \<not> truthy_str (SPOTIFY_CLIENT_SECRET e)
      then (Inl (Error ''Missing SPOTIFY_CLIENT_ID or SPOTIFY_CLIENT_SECRET in .env''), cache, [])
      else (case post_token n (template (SPOTIFY_CLIENT_ID e) @ '':'' @ template (SPOTIFY_CLIENT_SECRET e)) of
              Inl err \<Rightarrow> (Inl err, cache, [token_url])
            | Inr resp \<Rightarrow>
                if \<not> ok resp
                then (Inl (Error (''Token request failed: '' @ dec (status resp) @ '' '' @ body resp)),
                      cache, [token_url])
                else (case json resp of
                        Inl err \<Rightarrow> (Inl err, cache, [token_url])
                      | Inr data \<Rightarrow>
                          let cache' = \<lparr>accessToken = access_token data,
                                        expiresAt = now2 + js_or_num (expires_in data) 3600\<rparr>
                          in (Inr (accessToken cache'), cache', [token_url]))))"

section \<open>Resource Fetcher: \<open>getImagesFor\<close>\<close>

definition fetchJSON :: "net \<Rightarrow> string \<Rightarrow> string option \<Rightarrow> error + resource" where
  "fetchJSON n u token =
     (case get_json n u (''Bearer '' @ template token) of
        Inl err \<Rightarrow> Inl err
      | Inr r \<Rightarrow>
          if \<not> ok r then Inl (Error (''Spotify API error: '' @ dec (status r) @ '' '' @ body r))
          else json r)"

text \<open>
  \<open>Number(v)\<close> on a JSON value: \<open>undefined\<close> is NaN, \<open>null\<close> is 0, a boolean is 0 or 1,
  a number is itself, a string goes through StringToNumber, an array or object through
  ToPrimitive and then StringToNumber.
\<close>

fun Number :: "net \<Rightarrow> json \<Rightarrow> error + jsnum" where
  "Number n JUndefined = Inr NaN"
| "Number n JNull = Inr (Finite 0)"
| "Number n (JBool b) = Inr (Finite (if b then 1 else 0))"
| "Number n (JNumber x) = Inr x"
| "Number n (JString s) = Inr (string_to_number n s)"
| "Number n (JArray xs) = map_sum id (string_to_number n) (to_primitive n (JArray xs))"
| "Number n (JObject kvs) = map_sum id (string_to_number n) (to_primitive n (JObject kvs))"

text \<open>A value that is neither an array nor an object; \<open>Number\<close> never throws on one.\<close>

fun scalar :: "json \<Rightarrow> bool" where
  "scalar (JArray xs) = False"
| "scalar (JObject kvs) = False"
| "scalar v = True"

text \<open>\<open>img?.width\<close>: \<open>undefined\<close> on an entry without the property.\<close>

fun opt_field :: "('a \<Rightarrow> json) \<Rightarrow> 'a option \<Rightarrow> json" where
  "opt_field f None = JUndefined"
| "opt_field f (Some x) = f x"

text \<open>
  The predicate \<open>Number(img?.width) === 640 && Number(img?.height) === 640\<close>: the height
  is coerced only when the width is 640.
\<close>

definition is640 :: "net \<Rightarrow> image option \<Rightarrow> error + bool" where
  "is640 n img =
     (case Number n (opt_field width img) of
        Inl err \<Rightarrow> Inl err
      | Inr w \<Rightarrow>
          if w \<noteq> Finite 640 then Inr False
          else map_sum id (\<lambda>h. h = Finite 640) (Number n (opt_field height img)))"

text \<open>\<open>xs.filter(p)\<close> for a predicate that may throw: the first throw ends the call.\<close>

fun filter_js :: "('a \<Rightarrow> error + bool) \<Rightarrow> 'a list \<Rightarrow> error + 'a list" where
  "filter_js p [] = Inr []"
| "filter_js p (x # xs) =
     (case p x of
        Inl err \<Rightarrow> Inl err
      | Inr keep \<Rightarrow>
          (case filter_js p xs of
             Inl err \<Rightarrow> Inl err
           | Inr ys \<Rightarrow> Inr (if keep then x # ys else ys)))"

definition only640 :: "net \<Rightarrow> images_value \<Rightarrow> error + image option list" where
  "only640 n imgs =
     (case imgs of
        NoImages \<Rightarrow> filter_js (is640 n) []
      | ImageArray xs \<Rightarrow> filter_js (is640 n) xs
      | NotAnArray \<Rightarrow> Inl (Error ''(imgs || []).filter is not a function''))"

record result =
  title :: "string option"
  byline :: "string option"
  rtype :: string
  images :: "image option list"

definition base :: string where
  "base = ''https://api.spotify.com/v1''"

text \<open>\<open>d.artists?.map(a => a.name).join(', ')\<close>: \<open>join\<close> writes an absent name as the empty string.\<close>

definition artists_byline :: "resource \<Rightarrow> string option" where
  "artists_byline d =
     map_option (\<lambda>as. join '', '' (map (\<lambda>a. str_or (artist_name a) []) as)) (artists d)"

definition getImagesFor ::
  "env \<Rightarrow> net \<Rightarrow> int \<Rightarrow> int \<Rightarrow> tokenCache \<Rightarrow> string \<Rightarrow> string
     \<Rightarrow> (error + result) \<times> tokenCache \<times> string list" where
  "getImagesFor e n now1 now2 cache type ident =
     (case getAccessToken e n now1 now2 cache of
        (Inl err, cache', calls) \<Rightarrow> (Inl err, cache', calls)
      | (Inr token, cache', calls) \<Rightarrow>
          if type = ''track'' then
            (case fetchJSON n (base @ ''/tracks/'' @ ident) token of
               Inl err \<Rightarrow> Inl err
             | Inr d \<Rightarrow>
                 map_sum id (\<lambda>imgs. \<lparr>title = name d, byline = artists_byline d, rtype = ''track'',
                                       images = imgs\<rparr>)
                   (only640 n (case album d of None \<Rightarrow> NoImages | Some a \<Rightarrow> album_images a)),
             cache', calls @ [base @ ''/tracks/'' @ ident])
          else if type = ''album'' then
            (case fetchJSON n (base @ ''/albums/'' @ ident) token of
               Inl err \<Rightarrow> Inl err
             | Inr d \<Rightarrow>
                 map_sum id (\<lambda>imgs. \<lparr>title = name d, byline = artists_byline d, rtype = ''album'',
                                       images = imgs\<rparr>)
                   (only640 n (res_images d)),
             cache', calls @ [base @ ''/albums/'' @ ident])
          else if type = ''artist'' then
            (case fetchJSON n (base @ ''/artists/'' @ ident) token of
               Inl err \<Rightarrow> Inl err
             | Inr d \<Rightarrow>
                 map_sum id (\<lambda>imgs. \<lparr>title = name d, byline = Some ''Artist'', rtype = ''artist'',
                                       images = imgs\<rparr>)
                   (only640 n (res_images d)),
             cache', calls @ [base @ ''/artists/'' @ ident])
          else if type = ''playlist'' then
            (case fetchJSON n (base @ ''/playlists/'' @ ident) token of
               Inl err \<Rightarrow> Inl err
             | Inr d \<Rightarrow>
                 map_sum id (\<lambda>imgs. \<lparr>title = name d,
                                       byline = (case owner d of
                                                   None \<Rightarrow> Some ''Playlist''
                                                 | Some ow \<Rightarrow>
                                                     if truthy_str (display_name ow)
                                                     then Some (''By '' @ template (display_name ow))
                                                     else Some ''Playlist''),
                                       rtype = ''playlist'', images = imgs\<rparr>)
                   (only640 n (res_images d)),
             cache', calls @ [base @ ''/playlists/'' @ ident])
          else if type = ''episode'' then
            (case fetchJSON n (base @ ''/episodes/'' @ ident) token of
               Inl err \<Rightarrow> Inl err
             | Inr d \<Rightarrow>
                 map_sum id (\<lambda>imgs. \<lparr>title = name d,
                                       byline = (case parent_show d of
                                                   None \<Rightarrow> Some ''Episode''
                                                 | Some sh \<Rightarrow>
                                                     if truthy_str (show_name sh)
                                                     then Some (''From '' @ template (show_name sh))
                                                     else Some ''Episode''),
                                       rtype = ''episode'', images = imgs\<rparr>)
                   (only640 n (res_images d)),
             cache', calls @ [base @ ''/episodes/'' @ ident])
          else if type = ''show'' then
            (case fetchJSON n (base @ ''/shows/'' @ ident) token of
               Inl err \<Rightarrow> Inl err
             | Inr d \<Rightarrow>
                 map_sum id (\<lambda>imgs. \<lparr>title = name d, byline = Some ''Podcast'', rtype = ''show'',
                                       images = imgs\<rparr>)
                   (only640 n (res_images d)),
             cache', calls @ [base @ ''/shows/'' @ ident])
          else (Inl (Error (''Unsupported type: '' @ type)), cache', calls))"

section \<open>Request Router: the two endpoints\<close>

record cover =
  cover_id :: string
  cover_type :: string
  cover_title :: "string option"
  cover_byline :: "string option"
  cover_images :: "image option list"

text \<open>
  A reply is a status and a payload: the JSON object \<open>{error}\<close> or \<open>{error, details}\<close>, the
  cover object, or the JPEG bytes with their headers.
\<close>

datatype payload =
    ErrorJson string "string option"
  | CoverJson cover
  | Attachment "(string \<times> string) list" "8 word list"

record reply =
  http_status :: nat
  payload :: payload

text \<open>
  \<open>app.get('/api/cover')\<close>. The query parameter \<open>url\<close> is absent or a string. The
  \<open>console.log\<close> of the sizes sits in a \<open>try\<close> of its own and changes nothing.
\<close>

definition apiCover ::
  "env \<Rightarrow> net \<Rightarrow> url_parser \<Rightarrow> int \<Rightarrow> int \<Rightarrow> tokenCache \<Rightarrow> string option
     \<Rightarrow> reply \<times> tokenCache \<times> string list" where
  "apiCover e n new_URL now1 now2 cache url_param =
     (case parseSpotifyLink new_URL (str_or url_param []) of
        None \<Rightarrow>
          (\<lparr>http_status = 400, payload = ErrorJson ''Invalid or unsupported Spotify link/URI.'' None\<rparr>,
           cache, [])
      | Some parsed \<Rightarrow>
          (case getImagesFor e n now1 now2 cache (ltype parsed) (lid parsed) of
             (Inl err, cache', calls) \<Rightarrow>
               (\<lparr>http_status = 500, payload = ErrorJson (message err) None\<rparr>, cache', calls)
           | (Inr data, cache', calls) \<Rightarrow>
               (\<lparr>http_status = 200,
                  payload = CoverJson \<lparr>cover_id = lid parsed, cover_type = rtype data,
                                        cover_title = title data, cover_byline = byline data,
                                        cover_images = images data\<rparr>\<rparr>,
                cache', calls)))"

record enhance_body =
  imageUrl :: "string option"
  endpoint :: "string option"
  quality :: jsval
  progressive :: jsval

text \<open>\<open>Math.max(1, Math.min(100, Number(quality) || 95))\<close>.\<close>

definition jpeg_quality :: "jsval \<Rightarrow> int" where
  "jpeg_quality v = max 1 (min 100 (number_or (toNumber v) 95))"

definition enhance_endpoint :: "env \<Rightarrow> enhance_body \<Rightarrow> string" where
  "enhance_endpoint e req =
     str_or (endpoint req) (str_or (CUTOUT_ENHANCE_ENDPOINT e) ''https://www.cutout.pro/api/v1/photoEnhance'')"

definition enhance_file :: "unit response \<Rightarrow> upload" where
  "enhance_file srcResp =
     (let contentTypeIn = str_or (content_type srcResp) ''image/jpeg'';
          ext = (if js_includes contentTypeIn ''png'' then ''png'' else ''jpg'')
      in \<lparr>file_name = ''input.'' @ ext, file_type = contentTypeIn, file_bytes = bytes srcResp\<rparr>)"

text \<open>The \<open>catch\<close> of the enhance handler: \<open>e.message || 'Enhance failed'\<close> under status 500.\<close>

definition enhance_caught :: "error \<Rightarrow> reply" where
  "enhance_caught err =
     \<lparr>http_status = 500, payload = ErrorJson (str_or (Some (message err)) ''Enhance failed'') None\<rparr>"

text \<open>\<open>app.post('/api/enhance')\<close>; \<open>now_ms\<close> is the \<open>Date.now()\<close> of the file name.\<close>

definition apiEnhance :: "env \<Rightarrow> net \<Rightarrow> nat \<Rightarrow> enhance_body \<Rightarrow> reply" where
  "apiEnhance e n now_ms req =
     (if \<not> truthy_str (imageUrl req)
      then \<lparr>http_status = 400, payload = ErrorJson ''Missing imageUrl'' None\<rparr>
      else if \<not> truthy_str (CUTOUT_API_KEY e)
      then \<lparr>http_status = 400, payload = ErrorJson ''Missing CUTOUT_API_KEY in .env'' None\<rparr>
      else (case get_image n (template (imageUrl req)) of
              Inl err \<Rightarrow> enhance_caught err
            | Inr srcResp \<Rightarrow>
                if \<not> ok srcResp
                then \<lparr>http_status = 400,
                       payload = ErrorJson (''Failed to fetch source image ('' @ dec (status srcResp) @ '')'')
                                   (Some (body srcResp))\<rparr>
                else (case post_file n (enhance_endpoint e req) (template (CUTOUT_API_KEY e))
                             (enhance_file srcResp) of
                        Inl err \<Rightarrow> enhance_caught err
                      | Inr r \<Rightarrow>
                          if \<not> ok r
                          then \<lparr>http_status = 502,
                                 payload = ErrorJson (''Cutout.pro error: '' @ dec (status r)) (Some (body r))\<rparr>
                          else (case sharp_jpeg n (bytes r) (jpeg_quality (quality req))
                                       (toBoolean (progressive req)) of
                                  Inl err \<Rightarrow> enhance_caught err
                                | Inr resized \<Rightarrow>
                                    \<lparr>http_status = 200,
                                      payload = Attachment
                                        [(''Content-Type'', ''image/jpeg''),
                                         (''Content-Length'', dec (length resized)),
                                         (''Content-Disposition'',
                                          ''attachment; filename='' @ [CHR 0x22] @ ''enhanced_3000x3000_'' @ dec now_ms
                                            @ ''.jpg'' @ [CHR 0x22])]
                                        resized\<rparr>))))"

section \<open>The projection table of the specification\<close>

text \<open>
  The per-type table of the specification, written from its words and compared with
  \<open>getImagesFor\<close> below: the lookup path, the byline and the image source of each of the
  six resource types. A name counts as present when it is a non-empty string.
\<close>

definition six_types :: "string list" where
  "six_types = [''track'', ''album'', ''artist'', ''playlist'', ''episode'', ''show'']"

definition table_path :: "string \<Rightarrow> string" where
  "table_path t =
     (if t = ''track'' then ''/tracks/'' else if t = ''album'' then ''/albums/''
      else if t = ''artist'' then ''/artists/'' else if t = ''playlist'' then ''/playlists/''
      else if t = ''episode'' then ''/episodes/'' else ''/shows/'')"

fun present_name :: "string option \<Rightarrow> string option" where
  "present_name None = None"
| "present_name (Some s) = (if s = [] then None else Some s)"

definition joined_artist_names :: "resource \<Rightarrow> string option" where
  "joined_artist_names d =
     (case artists d of
        None \<Rightarrow> None
      | Some as \<Rightarrow> Some (join '', '' (map (\<lambda>a. case artist_name a of None \<Rightarrow> [] | Some s \<Rightarrow> s) as)))"

definition table_byline :: "string \<Rightarrow> resource \<Rightarrow> string option" where
  "table_byline t d =
     (if t = ''track'' \<or> t = ''album'' then joined_artist_names d
      else if t = ''artist'' then Some ''Artist''
      else if t = ''playlist'' then
        (case present_name (case owner d of None \<Rightarrow> None | Some ow \<Rightarrow> display_name ow) of
           Some nm \<Rightarrow> Some (''By '' @ nm) | None \<Rightarrow> Some ''Playlist'')
      else if t = ''episode'' then
        (case present_name (case parent_show d of None \<Rightarrow> None | Some sh \<Rightarrow> show_name sh) of
           Some nm \<Rightarrow> Some (''From '' @ nm) | None \<Rightarrow> Some ''Episode'')
      else Some ''Podcast'')"

definition table_image_source :: "string \<Rightarrow> resource \<Rightarrow> images_value" where
  "table_image_source t d =
     (if t = ''track'' then (case album d of None \<Rightarrow> NoImages | Some a \<Rightarrow> album_images a)
      else res_images d)"

section \<open>Sample worlds for the examples\<close>

definition no_credentials :: env where
  "no_credentials = \<lparr>SPOTIFY_CLIENT_ID = None, SPOTIFY_CLIENT_SECRET = None,
                      CUTOUT_API_KEY = None, CUTOUT_ENHANCE_ENDPOINT = None\<rparr>"

definition full_env :: env where
  "full_env = \<lparr>SPOTIFY_CLIENT_ID = Some ''client'', SPOTIFY_CLIENT_SECRET = Some ''secret'',
                CUTOUT_API_KEY = Some ''key'', CUTOUT_ENHANCE_ENDPOINT = None\<rparr>"

definition answer :: "nat \<Rightarrow> string \<Rightarrow> 'a \<Rightarrow> 'a response" where
  "answer st txt v =
     \<lparr>ok = (200 \<le> st \<and> st \<le> 299), status = st, body = txt, json = Inr v,
      content_type = Some ''image/jpeg'', bytes = [0xFF, 0xD8]\<rparr>"

definition responded :: "nat \<Rightarrow> string \<Rightarrow> 'a \<Rightarrow> 'a fetched" where
  "responded st txt v = Inr (answer st txt v)"

text \<open>
  What StringToNumber and ToPrimitive yield on the values used in the examples: the
  string \<open>640\<close> is the number 640, the array \<open>[640]\<close> prints as \<open>640\<close>, an object
  whose \<open>valueOf\<close> and \<open>toString\<close> are numbers cannot be converted; other strings stand
  for text that is not a number and other objects for plain ones.
\<close>

definition sample_string_to_number :: "string \<Rightarrow> jsnum" where
  "sample_string_to_number s = (if s = ''640'' then Finite 640 else NaN)"

definition unconvertible :: json where
  "unconvertible = JObject [(''valueOf'', JNumber (Finite 1)), (''toString'', JNumber (Finite 1))]"

definition sample_to_primitive :: "json \<Rightarrow> error + string" where
  "sample_to_primitive v =
     (if v = JArray [JNumber (Finite 640)] then Inr ''640''
      else if v = unconvertible then Inl (Error ''Cannot convert object to primitive value'')
      else Inr ''[object Object]'')"

text \<open>A world in which every call of a kind has the one scripted outcome.\<close>

definition scripted :: "token_data fetched \<Rightarrow> resource fetched \<Rightarrow> unit fetched \<Rightarrow> unit fetched
    \<Rightarrow> (error + 8 word list) \<Rightarrow> net" where
  "scripted tok res img tr sh =
     \<lparr>post_token = (\<lambda>_. tok), get_json = (\<lambda>_ _. res), get_image = (\<lambda>_. img),
      post_file = (\<lambda>_ _ _. tr), sharp_jpeg = (\<lambda>_ _ _. sh),
      string_to_number = sample_string_to_number, to_primitive = sample_to_primitive\<rparr>"

definition cover640 :: image where
  "cover640 = \<lparr>url = ''https://i.scdn.co/image/a640'', width = JNumber (Finite 640),
               height = JNumber (Finite 640)\<rparr>"

definition sample_images :: "image option list" where
  "sample_images =
     [Some cover640,
      Some \<lparr>url = ''https://i.scdn.co/image/a300'', width = JNumber (Finite 300),
            height = JNumber (Finite 300)\<rparr>,
      Some \<lparr>url = ''https://i.scdn.co/image/near'', width = JNumber (Finite 640),
            height = JNumber (Finite 639)\<rparr>,
      Some \<lparr>url = ''https://i.scdn.co/image/nodim'', width = JNull, height = JUndefined\<rparr>,
      None]"

text \<open>Entries whose dimensions are the string \<open>640\<close> and the array \<open>[640]\<close>.\<close>

definition text640 :: image where
  "text640 = \<lparr>url = ''https://i.scdn.co/image/t640'', width = JString ''640'',
               height = JString ''640''\<rparr>"

definition array640 :: image where
  "array640 = \<lparr>url = ''https://i.scdn.co/image/r640'', width = JArray [JNumber (Finite 640)],
                height = JNumber (Finite 640)\<rparr>"

definition coerced_images :: "image option list" where
  "coerced_images =
     [Some text640, Some cover640,
      Some \<lparr>url = ''https://i.scdn.co/image/wide'', width = JString ''wide'',
            height = JNumber (Finite 640)\<rparr>,
      Some array640]"

definition sample_track :: resource where
  "sample_track =
     \<lparr>name = Some ''Song'',
      artists = Some [\<lparr>artist_name = Some ''Ann''\<rparr>, \<lparr>artist_name = Some ''Bob''\<rparr>],
      album = Some \<lparr>album_images = ImageArray sample_images\<rparr>,
      res_images = NoImages, owner = None, parent_show = None\<rparr>"

definition sample_net :: net where
  "sample_net = scripted (responded 200 [] \<lparr>access_token = Some ''BQD'', expires_in = Undefined\<rparr>)
                  (responded 200 [] sample_track)
                  (responded 200 [] ()) (responded 200 [] ()) (Inr [0xFF, 0xD8, 0xFF])"

text \<open>The same world with a token endpoint that declares a lifetime of ten seconds.\<close>

definition short_lived_net :: net where
  "short_lived_net = scripted (responded 200 [] \<lparr>access_token = Some ''BQD'', expires_in = Num 10\<rparr>)
                       (responded 200 [] sample_track)
                       (responded 200 [] ()) (responded 200 [] ()) (Inr [0xFF, 0xD8, 0xFF])"

definition warm_cache :: tokenCache where
  "warm_cache = \<lparr>accessToken = Some ''BQC'', expiresAt = 5000\<rparr>"

text \<open>Worlds in which one stage of the enhance pipeline fails, and a request.\<close>

definition source_gone_net :: net where
  "source_gone_net = sample_net\<lparr>get_image := (\<lambda>_. responded 404 ''Not Found'' ())\<rparr>"

definition source_offline_net :: net where
  "source_offline_net = sample_net\<lparr>get_image := (\<lambda>_. Inl (Error ''fetch failed''))\<rparr>"

definition transform_down_net :: net where
  "transform_down_net = sample_net\<lparr>post_file := (\<lambda>_ _ _. responded 503 ''busy'' ())\<rparr>"

definition undecodable_net :: net where
  "undecodable_net =
     sample_net\<lparr>sharp_jpeg := (\<lambda>_ _ _. Inl (Error ''Input buffer contains unsupported image format''))\<rparr>"

definition sample_request :: enhance_body where
  "sample_request = \<lparr>imageUrl = Some ''https://i.scdn.co/image/a640'', endpoint = None,
                      quality = Num 101, progressive = Undefined\<rparr>"

section \<open>Properties of the Link Resolver\<close>

subsection \<open>String helpers\<close>

lemma js_split_nonempty: "js_split sep s \<noteq> []"
  by (induction s) (auto split: list.splits)

lemma hd_js_split: "hd (js_split sep s) = takeWhile (\<lambda>c. c \<noteq> sep) s"
  by (induction s) (auto split: list.splits simp: js_split_nonempty)

lemma dropWhile_id: "xs \<noteq> [] \<Longrightarrow> \<not> P (hd xs) \<Longrightarrow> dropWhile P xs = xs"
  by (cases xs) auto

lemma trim_padded:
  assumes "core \<noteq> []" "\<not> is_js_space (hd core)" "\<not> is_js_space (last core)"
    and "list_all is_js_space pre" "list_all is_js_space post"
  shows "trim (pre @ core @ post) = core"
proof -
  have "dropWhile is_js_space (pre @ core @ post) = core @ post"
    using assms by (simp add: list_all_iff dropWhile_append2 dropWhile_id)
  moreover have "dropWhile is_js_space (rev post @ rev core) = rev core"
  proof -
    have "dropWhile is_js_space (rev post @ rev core) = dropWhile is_js_space (rev core)"
      using assms(5) by (intro dropWhile_append2) (simp add: list_all_iff)
    also have "\<dots> = rev core"
      using assms(1,3) by (intro dropWhile_id) (simp_all add: hd_rev)
    finally show ?thesis .
  qed
  ultimately show ?thesis by (simp add: trim_def)
qed

lemma take_eq_iff_prefix: "take (length sub) xs = sub \<longleftrightarrow> (\<exists>q. xs = sub @ q)"
proof
  assume "take (length sub) xs = sub"
  then have "xs = sub @ drop (length sub) xs" by (metis append_take_drop_id)
  then show "\<exists>q. xs = sub @ q" ..
qed auto

lemma js_includes_iff: "js_includes s sub \<longleftrightarrow> (\<exists>p q. s = p @ sub @ q)"
proof (induction s)
  case Nil
  show ?case by auto
next
  case (Cons c cs)
  have "(\<exists>p q. c # cs = p @ sub @ q) \<longleftrightarrow> (\<exists>q. c # cs = sub @ q) \<or> (\<exists>p q. cs = p @ sub @ q)"
  proof
    assume "\<exists>p q. c # cs = p @ sub @ q"
    then obtain p q where pq: "c # cs = p @ sub @ q" by blast
    show "(\<exists>q. c # cs = sub @ q) \<or> (\<exists>p q. cs = p @ sub @ q)"
    proof (cases p)
      case Nil
      with pq show ?thesis by auto
    next
      case (Cons a p')
      with pq have "cs = p' @ sub @ q" by simp
      then show ?thesis by blast
    qed
  next
    assume "(\<exists>q. c # cs = sub @ q) \<or> (\<exists>p q. cs = p @ sub @ q)"
    then show "\<exists>p q. c # cs = p @ sub @ q"
    proof
      assume "\<exists>q. c # cs = sub @ q"
      then obtain q where "c # cs = [] @ sub @ q" by auto
      then show ?thesis by blast
    next
      assume "\<exists>p q. cs = p @ sub @ q"
      then obtain p q where "c # cs = (c # p) @ sub @ q" by auto
      then show ?thesis by blast
    qed
  qed
  then show ?case using Cons.IH take_eq_iff_prefix [of sub "c # cs"] by simp
qed

lemma not_space_type_char: "is_type_char c \<Longrightarrow> \<not> is_js_space c"
  by (auto simp: is_type_char_def is_js_space_def is_lower_ascii_def is_upper_ascii_def)

lemma not_space_alnum: "is_alnum c \<Longrightarrow> \<not> is_js_space c"
  by (auto simp: is_alnum_def is_js_space_def is_lower_ascii_def is_upper_ascii_def is_digit_def)

lemma ascii_lower_colon: "ascii_lower CHR '':'' = CHR '':''"
  by (simp add: ascii_lower_def is_upper_ascii_def)

lemma not_type_char_colon: "\<not> is_type_char CHR '':''"
  by (simp add: is_type_char_def is_lower_ascii_def is_upper_ascii_def)

lemma ascii_lower_s: "ascii_lower c = CHR ''s'' \<Longrightarrow> \<not> is_js_space c"
  by (auto simp: ascii_lower_def is_js_space_def is_upper_ascii_def char_of_eq_iff split: if_splits)

lemma uriMatch_compact:
  assumes sch: "map ascii_lower sch = ''spotify''"
    and ty: "ty \<noteq> []" "list_all is_type_char ty"
    and ident: "ident \<noteq> []" "list_all is_alnum ident"
  shows "uriMatch (sch @ '':'' @ ty @ '':'' @ ident) = Some (ty, ident)"
proof -
  from sch have len: "length sch = 7"
    by (metis length_map length_Cons list.size(3) numeral_eq_Suc pred_numeral_simps Suc_eq_plus1 eval_nat_numeral(2,3) BitM.simps)
  have pre: "map ascii_lower (take 8 (sch @ '':'' @ ty @ '':'' @ ident)) = ''spotify:''"
    using sch len by (simp add: ascii_lower_colon)
  have rest: "drop 8 (sch @ '':'' @ ty @ '':'' @ ident) = ty @ '':'' @ ident"
    using len by simp
  have g1: "takeWhile is_type_char (ty @ '':'' @ ident) = ty"
    using ty by (simp add: list_all_iff takeWhile_append2 not_type_char_colon)
  have g2: "dropWhile is_type_char (ty @ '':'' @ ident) = '':'' @ ident"
    using ty by (simp add: list_all_iff dropWhile_append2 not_type_char_colon)
  show ?thesis
    unfolding uriMatch_def pre rest Let_def g1 g2 using ty ident by simp
qed

lemmas link_eval_defs =
  trim_def is_js_space_def uriMatch_def ascii_lower_def is_upper_ascii_def is_lower_ascii_def
  is_alnum_def is_digit_def is_type_char_def sample_URL_def toLowerCase_def lower_char_def
  char_of_eq_iff

subsection \<open>Compact URIs\<close>

text \<open>
  Claim C5, as the code has it. An input \<open>spotify:type:id\<close>, with the scheme in any letter
  case, a type of ASCII letters and underscores, an alphanumeric id and any white space
  around it, resolves to exactly the lowercased type and the id as written. An input whose
  scheme is not \<open>spotify\<close> is not taken for a compact URI, and resolves to no result
  whenever it is not a URL with a provider host either; the resolver returns an optional
  value in every case, never an error.
\<close>

theorem compact_uri_resolved:
  "(map ascii_lower sch = ''spotify'' \<longrightarrow> ty \<noteq> [] \<longrightarrow> list_all is_type_char ty \<longrightarrow>
      ident \<noteq> [] \<longrightarrow> list_all is_alnum ident \<longrightarrow>
      list_all is_js_space pre \<longrightarrow> list_all is_js_space post \<longrightarrow>
      parseSpotifyLink new_URL (pre @ (sch @ '':'' @ ty @ '':'' @ ident) @ post)
        = Some \<lparr>ltype = toLowerCase ty, lid = ident\<rparr>)
   \<and> (map ascii_lower (take 8 (trim input)) \<noteq> ''spotify:'' \<longrightarrow>
      (\<forall>u. new_URL (trim input) = Some u \<longrightarrow> \<not> js_includes (hostname u) ''.spotify.'') \<longrightarrow>
      parseSpotifyLink new_URL input = None)"
proof (intro conjI impI)
  let ?core = "sch @ '':'' @ ty @ '':'' @ ident"
  assume sch: "map ascii_lower sch = ''spotify''"
    and ty: "ty \<noteq> []" "list_all is_type_char ty"
    and ident: "ident \<noteq> []" "list_all is_alnum ident"
    and pad: "list_all is_js_space pre" "list_all is_js_space post"
  from sch obtain c cs where c: "sch = c # cs" "ascii_lower c = CHR ''s''"
    by (cases sch) auto
  have first: "\<not> is_js_space (hd ?core)"
    using c by (simp add: ascii_lower_s)
  have "last ?core = last ident" using ident by simp
  moreover have "is_alnum (last ident)"
    using ident by (simp add: list_all_iff)
  ultimately have final: "\<not> is_js_space (last ?core)"
    by (simp add: not_space_alnum)
  have t: "trim (pre @ ?core @ post) = ?core"
    using first final pad by (intro trim_padded) simp_all
  have m: "uriMatch ?core = Some (ty, ident)"
    using sch ty ident by (rule uriMatch_compact)
  show "parseSpotifyLink new_URL (pre @ ?core @ post) = Some \<lparr>ltype = toLowerCase ty, lid = ident\<rparr>"
    unfolding parseSpotifyLink_def t Let_def m using c by simp
next
  assume "map ascii_lower (take 8 (trim input)) \<noteq> ''spotify:''"
    and "\<forall>u. new_URL (trim input) = Some u \<longrightarrow> \<not> js_includes (hostname u) ''.spotify.''"
  then show "parseSpotifyLink new_URL input = None"
    by (auto simp: parseSpotifyLink_def uriMatch_def split: option.splits)
qed

theorem compact_uri_resolved_witness:
  "parseSpotifyLink sample_URL ''  Spotify:Track:3AJwUDP919kvQ9QcozQPxg''
     = Some \<lparr>ltype = ''track'', lid = ''3AJwUDP919kvQ9QcozQPxg''\<rparr>
   \<and> parseSpotifyLink sample_URL ''deezer:track:3135556'' = None"
  using compact_uri_resolved [of "''Spotify''" "''Track''" "''3AJwUDP919kvQ9QcozQPxg''" "''  ''" "[]"
      sample_URL "''deezer:track:3135556''"]
  by (simp add: link_eval_defs)

text \<open>
  The scheme alone does not decide: the URL branch never looks at it. A link with the
  unknown scheme \<open>foo\<close> and a provider host resolves to a track.
\<close>

theorem unrecognized_scheme_counterexample:
  "map ascii_lower (take 8 (trim ''foo://open.spotify.com/track/abc'')) \<noteq> ''spotify:''
   \<and> parseSpotifyLink sample_URL ''foo://open.spotify.com/track/abc''
       = Some \<lparr>ltype = ''track'', lid = ''abc''\<rparr>"
  by (simp add: parseSpotifyLink_def link_eval_defs)

subsection \<open>Hierarchical URLs\<close>

text \<open>
  Claim C6. For an input that is not a compact URI, parses as a URL, passes the host check
  and has at least two non-empty path segments, the resolver returns the first segment
  lowercased as the type and the second segment up to its first \<open>?\<close> as the id, in the
  letter case it came in. An input that does not parse as a URL resolves to no result.
  (A compact URI is itself a parseable URL with the scheme \<open>spotify\<close>; the parser being a
  parameter here, "not a compact URI" is stated.)
\<close>

theorem url_branch_extracts_segments:
  "(input \<noteq> [] \<longrightarrow> uriMatch (trim input) = None \<longrightarrow> new_URL (trim input) = Some u \<longrightarrow>
      js_includes (hostname u) ''.spotify.'' \<longrightarrow>
      filter (\<lambda>p. p \<noteq> []) (js_split CHR ''/'' (pathname u)) = seg1 # seg2 # others \<longrightarrow>
      parseSpotifyLink new_URL input
        = Some \<lparr>ltype = toLowerCase seg1, lid = takeWhile (\<lambda>c. c \<noteq> CHR ''?'') seg2\<rparr>)
   \<and> (uriMatch (trim input) = None \<longrightarrow> new_URL (trim input) = None \<longrightarrow>
      parseSpotifyLink new_URL input = None)"
  by (simp add: parseSpotifyLink_def hd_js_split)

theorem url_branch_extracts_segments_witness:
  "parseSpotifyLink sample_URL ''https://open.spotify.com/Album/1ATL5GLyefJaxhQzSPVrLX/''
     = Some \<lparr>ltype = ''album'', lid = ''1ATL5GLyefJaxhQzSPVrLX''\<rparr>
   \<and> parseSpotifyLink sample_URL ''not a link'' = None"
  using url_branch_extracts_segments
      [of "''https://open.spotify.com/Album/1ATL5GLyefJaxhQzSPVrLX/''" sample_URL
          "\<lparr>hostname = ''open.spotify.com'', pathname = ''/Album/1ATL5GLyefJaxhQzSPVrLX/''\<rparr>"
          "''Album''" "''1ATL5GLyefJaxhQzSPVrLX''" "[]"]
    url_branch_extracts_segments [of "''not a link''" sample_URL]
  by (simp add: link_eval_defs)

text \<open>
  Claim C10. Whatever the URL branch accepts has a hostname of the form
  \<open>p @ ''.spotify.'' @ q\<close>, with a dot on both sides of the label; a URL whose host is the
  apex domain \<open>spotify.com\<close> resolves to no result.
\<close>

theorem host_check_needs_dotted_label:
  "(parseSpotifyLink new_URL input = Some r \<longrightarrow> uriMatch (trim input) = None \<longrightarrow>
      (\<exists>u p q. new_URL (trim input) = Some u \<and> hostname u = p @ ''.spotify.'' @ q))
   \<and> (uriMatch (trim input) = None \<longrightarrow> new_URL (trim input) = Some u \<longrightarrow>
      hostname u = ''spotify.com'' \<longrightarrow> parseSpotifyLink new_URL input = None)"
proof (intro conjI impI)
  assume "parseSpotifyLink new_URL input = Some r" and "uriMatch (trim input) = None"
  then obtain v where v: "new_URL (trim input) = Some v" "js_includes (hostname v) ''.spotify.''"
    by (auto simp: parseSpotifyLink_def split: option.splits if_splits)
  from v(2) obtain p q where "hostname v = p @ ''.spotify.'' @ q"
    unfolding js_includes_iff by blast
  with v(1) show "\<exists>u p q. new_URL (trim input) = Some u \<and> hostname u = p @ ''.spotify.'' @ q"
    by blast
next
  assume "uriMatch (trim input) = None" and "new_URL (trim input) = Some u"
    and "hostname u = ''spotify.com''"
  then show "parseSpotifyLink new_URL input = None"
    by (simp add: parseSpotifyLink_def)
qed

theorem host_check_needs_dotted_label_witness:
  "(\<exists>u p q. sample_URL ''https://open.spotify.com/track/3AJwUDP919kvQ9QcozQPxg'' = Some u
        \<and> hostname u = p @ ''.spotify.'' @ q)
   \<and> parseSpotifyLink sample_URL ''https://spotify.com/track/abc'' = None"
  using host_check_needs_dotted_label
      [of sample_URL "''https://open.spotify.com/track/3AJwUDP919kvQ9QcozQPxg''"
          "\<lparr>ltype = ''track'', lid = ''3AJwUDP919kvQ9QcozQPxg''\<rparr>"]
    host_check_needs_dotted_label
      [of sample_URL "''https://spotify.com/track/abc''" _
          "\<lparr>hostname = ''spotify.com'', pathname = ''/track/abc''\<rparr>"]
  by (simp add: parseSpotifyLink_def link_eval_defs)

section \<open>Properties of the Credential Cache\<close>

lemma js_or_num_cases:
  "js_or_num Undefined d = d" "js_or_num Null d = d" "js_or_num (Num 0) d = d"
  "l \<noteq> 0 \<Longrightarrow> js_or_num (Num l) d = l"
  by (simp_all add: js_or_num_def)

text \<open>
  Claim C9. When the cache holds a token and the clock is before its expiry minus 30
  seconds, \<open>getAccessToken\<close> returns that token, leaves the cache as it was and calls
  nothing, whatever the configuration and the network are.
\<close>

theorem cached_token_reused:
  "truthy_str (accessToken cache) \<longrightarrow> now1 < expiresAt cache - 30 \<longrightarrow>
     getAccessToken e n now1 now2 cache = (Inr (accessToken cache), cache, [])"
  by (simp add: getAccessToken_def)

theorem cached_token_reused_witness:
  "getAccessToken no_credentials sample_net 4969 4969 warm_cache = (Inr (Some ''BQC''), warm_cache, [])"
  using cached_token_reused [of warm_cache 4969 no_credentials sample_net 4969]
  by (simp add: warm_cache_def)

text \<open>
  Claim C3, as the code has it. A token returned without a call comes from the cache and
  is more than 30 seconds from its expiry at the clock reading of the check. A token
  returned after a call is the one the token endpoint sent; its expiry is the clock
  reading at the store plus the declared lifetime (3600 when that is absent or zero, see
  \<open>js_or_num_cases\<close>), and it is more than 30 seconds from expiry exactly when that
  lifetime exceeds 30.
\<close>

theorem token_margin:
  "getAccessToken e n now1 now2 cache = (Inr tok, cache', calls) \<longrightarrow>
     (calls = [] \<longrightarrow> cache' = cache \<and> tok = accessToken cache \<and> now1 < expiresAt cache' - 30)
     \<and> (calls \<noteq> [] \<longrightarrow>
          (\<exists>resp data.
              post_token n (template (SPOTIFY_CLIENT_ID e) @ '':'' @ template (SPOTIFY_CLIENT_SECRET e)) = Inr resp
            \<and> json resp = Inr data \<and> tok = access_token data
            \<and> cache' = \<lparr>accessToken = access_token data,
                          expiresAt = now2 + js_or_num (expires_in data) 3600\<rparr>
            \<and> (now2 < expiresAt cache' - 30 \<longleftrightarrow> 30 < js_or_num (expires_in data) 3600)))"
  by (auto simp: getAccessToken_def Let_def split: if_splits sum.splits)

theorem token_margin_witness:
  "4969 < expiresAt warm_cache - 30
   \<and> getAccessToken full_env sample_net 1000 1001 initial_tokenCache
       = (Inr (Some ''BQD''), \<lparr>accessToken = Some ''BQD'', expiresAt = 4601\<rparr>, [token_url])
   \<and> (\<exists>resp data. post_token sample_net ''client:secret'' = Inr resp \<and> json resp = Inr data
         \<and> 30 < js_or_num (expires_in data) 3600)"
  using token_margin [of no_credentials sample_net 4969 4969 warm_cache "Some ''BQC''" warm_cache "[]"]
    token_margin [of full_env sample_net 1000 1001 initial_tokenCache "Some ''BQD''"
      "\<lparr>accessToken = Some ''BQD'', expiresAt = 4601\<rparr>" "[token_url]"]
  by (simp add: getAccessToken_def full_env_def sample_net_def scripted_def responded_def answer_def
      warm_cache_def initial_tokenCache_def js_or_num_def Let_def)

text \<open>
  A token endpoint that declares a lifetime of ten seconds: the fresh token is returned
  with an expiry ten seconds ahead, inside the margin.
\<close>

theorem fresh_token_margin_counterexample:
  "getAccessToken full_env short_lived_net 1000 1000 initial_tokenCache
     = (Inr (Some ''BQD''), \<lparr>accessToken = Some ''BQD'', expiresAt = 1010\<rparr>, [token_url])
   \<and> \<not> (1000 < expiresAt \<lparr>accessToken = Some ''BQD'', expiresAt = 1010\<rparr> - 30)"
  by (simp add: getAccessToken_def full_env_def short_lived_net_def scripted_def responded_def answer_def
      initial_tokenCache_def js_or_num_def Let_def)

section \<open>Properties of the Resource Fetcher\<close>

lemma filter_js_total:
  "(\<forall>x\<in>set xs. \<exists>keep. p x = Inr keep) \<Longrightarrow> filter_js p xs = Inr (filter (\<lambda>x. p x = Inr True) xs)"
  by (induction xs) auto

lemma is640_coerced:
  "Number n (opt_field width entry) = Inr w \<Longrightarrow> Number n (opt_field height entry) = Inr h \<Longrightarrow>
   is640 n entry = Inr (w = Finite 640 \<and> h = Finite 640)"
  by (simp add: is640_def)

lemma Number_scalar: "scalar v \<Longrightarrow> \<exists>x. Number n v = Inr x"
  by (cases v) simp_all

lemma only640_not_an_array:
  "only640 n NotAnArray = Inl (Error ''(imgs || []).filter is not a function'')"
  by (simp add: only640_def)

text \<open>
  Claim C7. On an image list whose dimensions \<open>Number\<close> can coerce, \<open>only640\<close> keeps,
  in their order, exactly the entries whose width and height are both 640 as numbers: the
  comparison is \<open>Number(v) === 640\<close>, the numeric equality that the specification writes
  \<open>width==height==640\<close>. Among numbers only 640 itself passes; \<open>undefined\<close> (a missing
  dimension, a \<open>null\<close> entry), \<open>null\<close> and booleans never pass; a string passes when
  StringToNumber reads it as 640. Every dimension that is neither an array nor an object
  can be coerced. When no entry qualifies, and on an absent list, the result is the
  empty list and not an error.
\<close>

theorem only640_exact:
  "((\<forall>entry\<in>set xs. \<exists>w h. Number n (opt_field width entry) = Inr w
        \<and> Number n (opt_field height entry) = Inr h) \<longrightarrow>
      only640 n (ImageArray xs)
        = Inr (filter (\<lambda>entry. Number n (opt_field width entry) = Inr (Finite 640)
                           \<and> Number n (opt_field height entry) = Inr (Finite 640)) xs)
      \<and> ((\<forall>entry\<in>set xs. \<not> (Number n (opt_field width entry) = Inr (Finite 640)
                           \<and> Number n (opt_field height entry) = Inr (Finite 640))) \<longrightarrow>
           only640 n (ImageArray xs) = Inr []))
   \<and> ((\<forall>entry\<in>set xs. scalar (opt_field width entry) \<and> scalar (opt_field height entry)) \<longrightarrow>
      (\<forall>entry\<in>set xs. \<exists>w h. Number n (opt_field width entry) = Inr w
        \<and> Number n (opt_field height entry) = Inr h))
   \<and> only640 n NoImages = Inr []
   \<and> Number n JUndefined \<noteq> Inr (Finite 640)
   \<and> Number n JNull \<noteq> Inr (Finite 640)
   \<and> Number n (JBool b) \<noteq> Inr (Finite 640)
   \<and> (Number n (JNumber x) = Inr (Finite 640)) = (x = Finite 640)
   \<and> (Number n (JString s) = Inr (Finite 640)) = (string_to_number n s = Finite 640)"
proof -
  let ?both = "\<lambda>entry. Number n (opt_field width entry) = Inr (Finite 640)
                 \<and> Number n (opt_field height entry) = Inr (Finite 640)"
  let ?coerce = "\<forall>entry\<in>set xs. \<exists>w h. Number n (opt_field width entry) = Inr w
                 \<and> Number n (opt_field height entry) = Inr h"
  have exact: "only640 n (ImageArray xs) = Inr (filter ?both xs)" if c: ?coerce
  proof -
    have keep: "is640 n entry = Inr (?both entry)" if "entry \<in> set xs" for entry
    proof -
      from c that obtain w h where wh: "Number n (opt_field width entry) = Inr w"
        "Number n (opt_field height entry) = Inr h" by blast
      then show ?thesis by (simp add: is640_coerced)
    qed
    then have "\<forall>entry\<in>set xs. \<exists>k. is640 n entry = Inr k" by blast
    then have "filter_js (is640 n) xs = Inr (filter (\<lambda>entry. is640 n entry = Inr True) xs)"
      by (rule filter_js_total)
    also have "filter (\<lambda>entry. is640 n entry = Inr True) xs = filter ?both xs"
      by (rule filter_cong) (simp_all add: keep)
    finally show ?thesis by (simp add: only640_def)
  qed
  have none: "only640 n (ImageArray xs) = Inr []" if ?coerce and "\<forall>entry\<in>set xs. \<not> ?both entry"
    using that exact by (simp add: filter_empty_conv)
  have scalars: ?coerce
    if "\<forall>entry\<in>set xs. scalar (opt_field width entry) \<and> scalar (opt_field height entry)"
    using that Number_scalar by blast
  have empty: "only640 n NoImages = Inr []"
    by (simp add: only640_def)
  have num: "(Number n (JNumber x) = Inr (Finite 640)) = (x = Finite 640)"
    by simp
  have str: "(Number n (JString s) = Inr (Finite 640)) = (string_to_number n s = Finite 640)"
    by simp
  have others: "Number n JUndefined \<noteq> Inr (Finite 640)" "Number n JNull \<noteq> Inr (Finite 640)"
    "Number n (JBool b) \<noteq> Inr (Finite 640)"
    by simp_all
  from exact none scalars empty num str others show ?thesis by blast
qed

lemmas fetcher_eval_defs =
  only640_def is640_def sample_net_def scripted_def sample_string_to_number_def
  sample_to_primitive_def unconvertible_def sample_images_def coerced_images_def cover640_def
  text640_def array640_def

theorem only640_exact_witness:
  "only640 sample_net (ImageArray coerced_images) = Inr [Some text640, Some cover640, Some array640]
   \<and> only640 sample_net (ImageArray sample_images) = Inr [Some cover640]
   \<and> only640 sample_net (ImageArray (tl sample_images)) = Inr []
   \<and> only640 sample_net NoImages = Inr []"
  using only640_exact [of coerced_images sample_net]
    only640_exact [of sample_images sample_net]
    only640_exact [of "tl sample_images" sample_net]
  by (simp add: sample_net_def scripted_def sample_string_to_number_def
      sample_to_primitive_def unconvertible_def sample_images_def coerced_images_def cover640_def
      text640_def array640_def)

text \<open>
  The two ways in which the filter does throw: a dimension that ToPrimitive cannot
  convert, and an \<open>images\<close> value that is truthy and not an array (\<open>only640_not_an_array\<close>).
\<close>

lemma only640_unconvertible:
  "only640 sample_net (ImageArray [Some \<lparr>url = [], width = unconvertible, height = JNull\<rparr>])
     = Inl (Error ''Cannot convert object to primitive value'')"
  by (simp add: fetcher_eval_defs)

lemma artists_byline_table: "artists_byline d = joined_artist_names d"
proof -
  have "str_or x [] = (case x of None \<Rightarrow> [] | Some s \<Rightarrow> s)" for x
    by (cases x) simp_all
  then show ?thesis
    by (simp add: artists_byline_def joined_artist_names_def map_option_case)
qed

lemma named_byline:
  "(if truthy_str x then Some (pre @ template x) else Some dflt)
     = (case present_name x of Some nm \<Rightarrow> Some (pre @ nm) | None \<Rightarrow> Some dflt)"
  by (cases x) simp_all

text \<open>
  Claim C8. For each of the six resource types, once the token is there and the lookup of
  that type answers with the resource \<open>d\<close>, \<open>getImagesFor\<close> has called the lookup path of
  the type and returns the title, byline and type of the specification's table with the
  images that \<open>only640\<close> keeps of the table's image source, or the error of \<open>only640\<close>
  when that filter throws.
\<close>

theorem projection_follows_table:
  "t \<in> set six_types \<longrightarrow>
   getAccessToken e n now1 now2 cache = (Inr token, cache', calls) \<longrightarrow>
   fetchJSON n (base @ table_path t @ ident) token = Inr d \<longrightarrow>
   getImagesFor e n now1 now2 cache t ident
     = (map_sum id (\<lambda>imgs. \<lparr>title = name d, byline = table_byline t d, rtype = t, images = imgs\<rparr>)
          (only640 n (table_image_source t d)),
        cache', calls @ [base @ table_path t @ ident])"
proof (intro impI)
  assume t: "t \<in> set six_types"
    and tok: "getAccessToken e n now1 now2 cache = (Inr token, cache', calls)"
    and d: "fetchJSON n (base @ table_path t @ ident) token = Inr d"
  from t have "t = ''track'' \<or> t = ''album'' \<or> t = ''artist'' \<or> t = ''playlist''
      \<or> t = ''episode'' \<or> t = ''show''"
    by (simp add: six_types_def)
  then consider "t = ''track''" | "t = ''album''" | "t = ''artist''" | "t = ''playlist''"
    | "t = ''episode''" | "t = ''show''"
    by (elim disjE) blast+
  then show "getImagesFor e n now1 now2 cache t ident
     = (map_sum id (\<lambda>imgs. \<lparr>title = name d, byline = table_byline t d, rtype = t, images = imgs\<rparr>)
          (only640 n (table_image_source t d)),
        cache', calls @ [base @ table_path t @ ident])"
  proof cases
    case 1
    with tok d show ?thesis
      by (simp add: getImagesFor_def table_path_def table_byline_def table_image_source_def
          artists_byline_table)
  next
    case 2
    with tok d show ?thesis
      by (simp add: getImagesFor_def table_path_def table_byline_def table_image_source_def
          artists_byline_table)
  next
    case 3
    with tok d show ?thesis
      by (simp add: getImagesFor_def table_path_def table_byline_def table_image_source_def)
  next
    case 4
    with tok d show ?thesis
      by (cases "owner d")
        (simp_all add: getImagesFor_def table_path_def table_byline_def table_image_source_def
          named_byline)
  next
    case 5
    with tok d show ?thesis
      by (cases "parent_show d")
        (simp_all add: getImagesFor_def table_path_def table_byline_def table_image_source_def
          named_byline)
  next
    case 6
    with tok d show ?thesis
      by (simp add: getImagesFor_def table_path_def table_byline_def table_image_source_def)
  qed
qed

theorem projection_follows_table_witness:
  "getImagesFor full_env sample_net 1000 1001 initial_tokenCache ''track'' ''3AJwUDP919kvQ9QcozQPxg''
     = (Inr \<lparr>title = Some ''Song'', byline = Some ''Ann, Bob'', rtype = ''track'',
             images = [Some cover640]\<rparr>,
        \<lparr>accessToken = Some ''BQD'', expiresAt = 4601\<rparr>,
        [token_url, ''https://api.spotify.com/v1/tracks/3AJwUDP919kvQ9QcozQPxg''])"
  using projection_follows_table [of "''track''" full_env sample_net 1000 1001 initial_tokenCache
      "Some ''BQD''" "\<lparr>accessToken = Some ''BQD'', expiresAt = 4601\<rparr>" "[token_url]"
      "''3AJwUDP919kvQ9QcozQPxg''" sample_track]
  by (simp add: six_types_def getAccessToken_def fetchJSON_def full_env_def sample_net_def
      scripted_def responded_def answer_def initial_tokenCache_def js_or_num_def Let_def base_def
      table_path_def table_byline_def table_image_source_def joined_artist_names_def
      sample_track_def only640_def is640_def sample_images_def cover640_def)

section \<open>Properties of the endpoints\<close>

lemma getImagesFor_token_error:
  "getAccessToken e n now1 now2 cache = (Inl err, cache', calls) \<Longrightarrow>
   getImagesFor e n now1 now2 cache t ident = (Inl err, cache', calls)"
  by (simp add: getImagesFor_def)

text \<open>
  Without credentials \<open>getAccessToken\<close> never stores a token and never calls out, so a
  process that starts without them keeps the empty cache it starts with.
\<close>

lemma no_credentials_no_token:
  "\<not> truthy_str (SPOTIFY_CLIENT_ID e) \<or> \<not> truthy_str (SPOTIFY_CLIENT_SECRET e) \<Longrightarrow>
   getAccessToken e n now1 now2 cache = (r, cache', calls) \<Longrightarrow> cache' = cache \<and> calls = []"
  by (auto simp: getAccessToken_def split: if_splits)

lemma cover_cold_without_credentials:
  assumes creds: "\<not> truthy_str (SPOTIFY_CLIENT_ID e) \<or> \<not> truthy_str (SPOTIFY_CLIENT_SECRET e)"
    and cold: "\<not> truthy_str (accessToken cache)"
    and link: "parseSpotifyLink new_URL (str_or url_param []) = Some parsed"
  shows "apiCover e n new_URL now1 now2 cache url_param
     = (\<lparr>http_status = 500,
          payload = ErrorJson ''Missing SPOTIFY_CLIENT_ID or SPOTIFY_CLIENT_SECRET in .env'' None\<rparr>,
        cache, [])"
proof -
  have "getAccessToken e n now1 now2 cache
      = (Inl (Error ''Missing SPOTIFY_CLIENT_ID or SPOTIFY_CLIENT_SECRET in .env''), cache, [])"
    using creds cold by (auto simp: getAccessToken_def)
  then have "getImagesFor e n now1 now2 cache (ltype parsed) (lid parsed)
      = (Inl (Error ''Missing SPOTIFY_CLIENT_ID or SPOTIFY_CLIENT_SECRET in .env''), cache, [])"
    by (rule getImagesFor_token_error)
  with link show ?thesis
    by (simp add: apiCover_def)
qed

text \<open>
  Claim C1 at a request with a valid link, made by a process that has no client id and no
  client secret: the throw of \<open>getAccessToken\<close> is caught by the handler, which answers
  with status 500 and \<open>{error: 'Missing SPOTIFY_CLIENT_ID or SPOTIFY_CLIENT_SECRET in .env'}\<close>
  where the claim requires a 400; the enhance handler answers its own missing key with 400.
\<close>

theorem cover_without_credentials_is_500:
  "apiCover no_credentials sample_net sample_URL 1000 1001 initial_tokenCache
       (Some ''spotify:track:3AJwUDP919kvQ9QcozQPxg'')
     = (\<lparr>http_status = 500,
          payload = ErrorJson ''Missing SPOTIFY_CLIENT_ID or SPOTIFY_CLIENT_SECRET in .env'' None\<rparr>,
        initial_tokenCache, [])
   \<and> http_status (fst (apiCover no_credentials sample_net sample_URL 1000 1001 initial_tokenCache
         (Some ''spotify:track:3AJwUDP919kvQ9QcozQPxg''))) \<noteq> 400"
  using cover_cold_without_credentials [of no_credentials initial_tokenCache sample_URL
      "Some ''spotify:track:3AJwUDP919kvQ9QcozQPxg''"
      "\<lparr>ltype = ''track'', lid = ''3AJwUDP919kvQ9QcozQPxg''\<rparr>" sample_net 1000 1001]
  by (simp add: no_credentials_def initial_tokenCache_def parseSpotifyLink_def link_eval_defs)

lemma jpeg_quality_nonzero: "q \<noteq> 0 \<Longrightarrow> jpeg_quality (Num q) = max 1 (min 100 q)"
  by (simp add: jpeg_quality_def)

lemma jpeg_quality_absent: "jpeg_quality Undefined = 95"
  by (simp add: jpeg_quality_def)

text \<open>
  Claim C4 at the quality 0: \<open>Number(0) || 95\<close> is 95, so the handler encodes at 95 and
  not at the lower bound 1, while \<open>-5\<close> and \<open>101\<close> are clamped to 1 and 100.
\<close>

theorem jpeg_quality_zero:
  "jpeg_quality (Num 0) = 95 \<and> jpeg_quality (Num 0) \<noteq> max 1 (min 100 0)
   \<and> jpeg_quality (Num (- 5)) = 1 \<and> jpeg_quality (Num 101) = 100"
  by (simp add: jpeg_quality_def)

lemmas world_defs =
  enhance_endpoint_def enhance_file_def jpeg_quality_def
  full_env_def no_credentials_def sample_request_def sample_net_def scripted_def responded_def
  answer_def
  source_gone_net_def source_offline_net_def transform_down_net_def undecodable_net_def

text \<open>
  Claim C2, as the code has it. The status of \<open>/api/enhance\<close> is 400 exactly when the
  image URL or the API key is missing or the source image is answered with a non-success
  response (then with error and details); 502 exactly when the transform service answers
  with a non-success response (with error and details); 500 exactly when the source fetch
  or the transform call gets no response, or the transformed bytes cannot be re-encoded.
\<close>

theorem enhance_status_by_failure_domain:
  "(http_status (apiEnhance e n now_ms req) = 400 \<longleftrightarrow>
      \<not> truthy_str (imageUrl req) \<or> \<not> truthy_str (CUTOUT_API_KEY e)
      \<or> (\<exists>src. get_image n (template (imageUrl req)) = Inr src \<and> \<not> ok src))
   \<and> (http_status (apiEnhance e n now_ms req) = 502 \<longleftrightarrow>
      truthy_str (imageUrl req) \<and> truthy_str (CUTOUT_API_KEY e)
      \<and> (\<exists>src r. get_image n (template (imageUrl req)) = Inr src \<and> ok src
            \<and> post_file n (enhance_endpoint e req) (template (CUTOUT_API_KEY e)) (enhance_file src) = Inr r
            \<and> \<not> ok r))
   \<and> (http_status (apiEnhance e n now_ms req) = 500 \<longleftrightarrow>
      truthy_str (imageUrl req) \<and> truthy_str (CUTOUT_API_KEY e)
      \<and> ((\<exists>err. get_image n (template (imageUrl req)) = Inl err)
         \<or> (\<exists>src. get_image n (template (imageUrl req)) = Inr src \<and> ok src
              \<and> ((\<exists>err. post_file n (enhance_endpoint e req) (template (CUTOUT_API_KEY e)) (enhance_file src) = Inl err)
                 \<or> (\<exists>r. post_file n (enhance_endpoint e req) (template (CUTOUT_API_KEY e)) (enhance_file src) = Inr r
                       \<and> ok r
                       \<and> (\<exists>err. sharp_jpeg n (bytes r) (jpeg_quality (quality req))
                                    (toBoolean (progressive req)) = Inl err))))))
   \<and> (get_image n (template (imageUrl req)) = Inr src \<longrightarrow>
      post_file n (enhance_endpoint e req) (template (CUTOUT_API_KEY e)) (enhance_file src) = Inr r \<longrightarrow>
      http_status (apiEnhance e n now_ms req) = 502 \<longrightarrow>
      payload (apiEnhance e n now_ms req)
        = ErrorJson (''Cutout.pro error: '' @ dec (status r)) (Some (body r)))
   \<and> (get_image n (template (imageUrl req)) = Inr src \<longrightarrow> \<not> ok src \<longrightarrow>
      truthy_str (imageUrl req) \<longrightarrow> truthy_str (CUTOUT_API_KEY e) \<longrightarrow>
      payload (apiEnhance e n now_ms req)
        = ErrorJson (''Failed to fetch source image ('' @ dec (status src) @ '')'') (Some (body src)))"
  by (auto simp: apiEnhance_def enhance_caught_def split: sum.splits)

theorem enhance_status_by_failure_domain_witness:
  "http_status (apiEnhance no_credentials sample_net 0 sample_request) = 400
   \<and> http_status (apiEnhance full_env source_gone_net 0 sample_request) = 400
   \<and> http_status (apiEnhance full_env transform_down_net 0 sample_request) = 502
   \<and> payload (apiEnhance full_env transform_down_net 0 sample_request)
       = ErrorJson ''Cutout.pro error: 503'' (Some ''busy'')
   \<and> http_status (apiEnhance full_env source_offline_net 0 sample_request) = 500
   \<and> http_status (apiEnhance full_env undecodable_net 0 sample_request) = 500"
  using enhance_status_by_failure_domain [of no_credentials sample_net 0 sample_request]
    enhance_status_by_failure_domain [of full_env source_gone_net 0 sample_request]
    enhance_status_by_failure_domain [of full_env transform_down_net 0 sample_request
      "answer 200 [] ()" "answer 503 ''busy'' ()"]
    enhance_status_by_failure_domain [of full_env source_offline_net 0 sample_request]
    enhance_status_by_failure_domain [of full_env undecodable_net 0 sample_request]
  by (simp add: world_defs dec.simps char_of_eq_iff)

text \<open>
  A source image answered with 404 is a 400 with details, not a 500.
\<close>

theorem source_status_counterexample:
  "apiEnhance full_env source_gone_net 0 sample_request
     = \<lparr>http_status = 400,
        payload = ErrorJson ''Failed to fetch source image (404)'' (Some ''Not Found'')\<rparr>"
  by (simp add: apiEnhance_def world_defs dec.simps char_of_eq_iff)

end
